theory Spec2Isabelle
  imports Complex_Main
begin

section \<open>JavaScript numbers\<close>

text \<open>
  The functions of \<^verbatim>\<open>src/utils/geospatial.js\<close> compute on JavaScript numbers. A number
  is modelled as an extended real with a not-a-number element: \<open>Fin x\<close> is the finite
  number \<open>x\<close>, \<open>PInf\<close> and \<open>NInf\<close> are \<^verbatim>\<open>Infinity\<close> and \<^verbatim>\<open>-Infinity\<close>, \<open>NaN\<close> is
  \<^verbatim>\<open>NaN\<close>. Arithmetic on finite numbers is exact: the rounding of IEEE doubles,
  overflow to infinity and the sign of zero are not modelled. Every operator below
  follows the ECMAScript rule for its operands' kinds (finite, infinite, NaN).
\<close>

datatype jsnum = Fin real | PInf | NInf | NaN

text \<open>Unary minus.\<close>

fun js_neg :: "jsnum \<Rightarrow> jsnum" where
  "js_neg (Fin x) = Fin (- x)"
| "js_neg PInf = NInf"
| "js_neg NInf = PInf"
| "js_neg NaN = NaN"

text \<open>\<^verbatim>\<open>a + b\<close>: opposite infinities give NaN.\<close>

fun js_add :: "jsnum \<Rightarrow> jsnum \<Rightarrow> jsnum" where
  "js_add NaN _ = NaN"
| "js_add _ NaN = NaN"
| "js_add (Fin x) (Fin y) = Fin (x + y)"
| "js_add PInf NInf = NaN"
| "js_add NInf PInf = NaN"
| "js_add PInf _ = PInf"
| "js_add _ PInf = PInf"
| "js_add NInf _ = NInf"
| "js_add _ NInf = NInf"

definition js_sub :: "jsnum \<Rightarrow> jsnum \<Rightarrow> jsnum" where
  "js_sub a b = js_add a (js_neg b)"

text \<open>The sign of a number that is not NaN, and the infinity of a given sign.\<close>

fun js_sign :: "jsnum \<Rightarrow> real" where
  "js_sign (Fin x) = sgn x"
| "js_sign PInf = 1"
| "js_sign NInf = - 1"
| "js_sign NaN = 0"

definition inf_of_sign :: "real \<Rightarrow> jsnum" where
  "inf_of_sign s = (if s = 0 then NaN else if 0 < s then PInf else NInf)"

text \<open>\<^verbatim>\<open>a * b\<close>: infinity times zero is NaN.\<close>

fun js_mul :: "jsnum \<Rightarrow> jsnum \<Rightarrow> jsnum" where
  "js_mul NaN _ = NaN"
| "js_mul _ NaN = NaN"
| "js_mul (Fin x) (Fin y) = Fin (x * y)"
| "js_mul a b = inf_of_sign (js_sign a * js_sign b)"

text \<open>
  \<^verbatim>\<open>a / b\<close>: a nonzero finite number over zero is an infinity, zero over zero and
  infinity over infinity are NaN, a finite number over an infinity is zero. The model's
  zero is the positive zero.
\<close>

fun js_div :: "jsnum \<Rightarrow> jsnum \<Rightarrow> jsnum" where
  "js_div NaN _ = NaN"
| "js_div _ NaN = NaN"
| "js_div (Fin x) (Fin y) = (if y = 0 then inf_of_sign (sgn x) else Fin (x / y))"
| "js_div (Fin x) _ = Fin 0"
| "js_div a (Fin y) = inf_of_sign (js_sign a * (if y < 0 then - 1 else 1))"
| "js_div _ _ = NaN"

text \<open>The comparisons \<^verbatim>\<open><\<close>, \<^verbatim>\<open><=\<close>, \<^verbatim>\<open>>\<close>, \<^verbatim>\<open>>=\<close>: false whenever an operand is NaN.\<close>

fun js_lt :: "jsnum \<Rightarrow> jsnum \<Rightarrow> bool" where
  "js_lt NaN _ = False"
| "js_lt _ NaN = False"
| "js_lt (Fin x) (Fin y) = (x < y)"
| "js_lt _ NInf = False"
| "js_lt PInf _ = False"
| "js_lt _ _ = True"

fun js_le :: "jsnum \<Rightarrow> jsnum \<Rightarrow> bool" where
  "js_le NaN _ = False"
| "js_le _ NaN = False"
| "js_le (Fin x) (Fin y) = (x \<le> y)"
| "js_le NInf _ = True"
| "js_le _ PInf = True"
| "js_le _ _ = False"

definition js_gt :: "jsnum \<Rightarrow> jsnum \<Rightarrow> bool" where
  "js_gt a b = js_lt b a"

definition js_ge :: "jsnum \<Rightarrow> jsnum \<Rightarrow> bool" where
  "js_ge a b = js_le b a"

text \<open>Truthiness of a number: \<^verbatim>\<open>!n\<close> holds exactly for zero and NaN.\<close>

fun js_truthy :: "jsnum \<Rightarrow> bool" where
  "js_truthy (Fin x) = (x \<noteq> 0)"
| "js_truthy NaN = False"
| "js_truthy _ = True"

text \<open>\<^verbatim>\<open>Math.max(a, b)\<close>: NaN if either argument is NaN.\<close>

fun js_max :: "jsnum \<Rightarrow> jsnum \<Rightarrow> jsnum" where
  "js_max NaN _ = NaN"
| "js_max _ NaN = NaN"
| "js_max a b = (if js_lt a b then b else a)"

text \<open>
  \<^verbatim>\<open>Math.min(...xs)\<close>: \<^verbatim>\<open>Infinity\<close> for no argument, NaN if any argument is NaN,
  the smallest argument otherwise.
\<close>

fun js_min :: "jsnum \<Rightarrow> jsnum \<Rightarrow> jsnum" where
  "js_min NaN _ = NaN"
| "js_min _ NaN = NaN"
| "js_min a b = (if js_lt b a then b else a)"

definition js_min_list :: "jsnum list \<Rightarrow> jsnum" where
  "js_min_list xs = foldl js_min PInf xs"

text \<open>\<^verbatim>\<open>Math.round(a)\<close>: the nearest integer, a tie going up.\<close>

fun js_round :: "jsnum \<Rightarrow> jsnum" where
  "js_round (Fin x) = Fin (of_int \<lfloor>x + 1 / 2\<rfloor>)"
| "js_round a = a"

section \<open>Flight metrics\<close>

text \<open>
  \<^verbatim>\<open>FLIGHT_WARNING_THRESHOLD\<close> and \<^verbatim>\<open>TAKEOFF_LANDING_OVERHEAD\<close> are imported from
  \<^verbatim>\<open>dronePresets.js\<close>, which is not among the sources. The functions below take them
  as their first argument.
\<close>

text \<open>
  Modelled from the spec: the value of \<^verbatim>\<open>FLIGHT_WARNING_THRESHOLD\<close>, declared in the
  missing \<^verbatim>\<open>dronePresets.js\<close>; \<^verbatim>\<open>docs/CODE_QUALITY.md\<close> records it as 0.85, the
  comment in \<^verbatim>\<open>getFlightWarningLevel\<close> and the spec say 85%.
\<close>

definition FLIGHT_WARNING_THRESHOLD :: jsnum where
  "FLIGHT_WARNING_THRESHOLD = Fin (85 / 100)"

datatype warning_level = safe | warning | critical

text \<open>
  \<^verbatim>\<open>
  export const calculateMissionTime = (totalDistance, speed) => {
      if (!speed || speed <= 0) return TAKEOFF_LANDING_OVERHEAD;
      const transitTime = totalDistance / speed;
      const missionTime = transitTime + TAKEOFF_LANDING_OVERHEAD;
      return Math.round(missionTime);
  };
  \<close>
\<close>

definition calculateMissionTime :: "jsnum \<Rightarrow> jsnum \<Rightarrow> jsnum \<Rightarrow> jsnum" where
  "calculateMissionTime overhead totalDistance speed =
     (if \<not> js_truthy speed \<or> js_le speed (Fin 0) then overhead
      else let transitTime = js_div totalDistance speed;
               missionTime = js_add transitTime overhead
           in js_round missionTime)"

text \<open>
  \<^verbatim>\<open>
  export const getFlightWarningLevel = (missionTimeSeconds, maxFlightTimeMinutes) => {
      if (!maxFlightTimeMinutes || maxFlightTimeMinutes <= 0) {
          return 'safe';
      }
      const maxFlightTimeSeconds = maxFlightTimeMinutes * 60;
      const warningThreshold = maxFlightTimeSeconds * FLIGHT_WARNING_THRESHOLD;
      if (missionTimeSeconds >= maxFlightTimeSeconds) {
          return 'critical';
      } else if (missionTimeSeconds >= warningThreshold) {
          return 'warning';
      }
      return 'safe';
  };
  \<close>
\<close>

definition getFlightWarningLevel :: "jsnum \<Rightarrow> jsnum \<Rightarrow> jsnum \<Rightarrow> warning_level" where
  "getFlightWarningLevel threshold missionTimeSeconds maxFlightTimeMinutes =
     (if \<not> js_truthy maxFlightTimeMinutes \<or> js_le maxFlightTimeMinutes (Fin 0) then safe
      else let maxFlightTimeSeconds = js_mul maxFlightTimeMinutes (Fin 60);
               warningThreshold = js_mul maxFlightTimeSeconds threshold
           in if js_ge missionTimeSeconds maxFlightTimeSeconds then critical
              else if js_ge missionTimeSeconds warningThreshold then warning
              else safe)"

section \<open>Elementary functions on JavaScript numbers\<close>

text \<open>
  \<^verbatim>\<open>Math.sqrt\<close>, \<^verbatim>\<open>Math.sin\<close>, \<^verbatim>\<open>Math.cos\<close>, \<^verbatim>\<open>Math.tan\<close>, \<^verbatim>\<open>Math.atan\<close> and
  \<^verbatim>\<open>Math.atan2\<close>, exact on finite arguments. The tangent is the quotient of sine and
  cosine by the division above, so at an odd multiple of \<open>\<pi>/2\<close>, where the real
  tangent has a pole, it is an infinity. No double is such a multiple: there
  \<^verbatim>\<open>Math.tan\<close> of the nearest double is finite and very large.
\<close>

fun js_sqrt :: "jsnum \<Rightarrow> jsnum" where
  "js_sqrt (Fin x) = (if x < 0 then NaN else Fin (sqrt x))"
| "js_sqrt PInf = PInf"
| "js_sqrt _ = NaN"

fun js_sin :: "jsnum \<Rightarrow> jsnum" where
  "js_sin (Fin x) = Fin (sin x)"
| "js_sin _ = NaN"

fun js_cos :: "jsnum \<Rightarrow> jsnum" where
  "js_cos (Fin x) = Fin (cos x)"
| "js_cos _ = NaN"

fun js_tan :: "jsnum \<Rightarrow> jsnum" where
  "js_tan (Fin x) = js_div (Fin (sin x)) (Fin (cos x))"
| "js_tan _ = NaN"

fun js_atan :: "jsnum \<Rightarrow> jsnum" where
  "js_atan (Fin x) = Fin (arctan x)"
| "js_atan PInf = Fin (pi / 2)"
| "js_atan NInf = Fin (- pi / 2)"
| "js_atan NaN = NaN"

text \<open>\<^verbatim>\<open>Math.atan2(y, x)\<close>: the angle of the point \<open>(x, y)\<close>, in \<open>[-\<pi>, \<pi>]\<close>.\<close>

fun js_atan2 :: "jsnum \<Rightarrow> jsnum \<Rightarrow> jsnum" where
  "js_atan2 NaN _ = NaN"
| "js_atan2 _ NaN = NaN"
| "js_atan2 (Fin y) (Fin x) =
     Fin (if 0 < x then arctan (y / x)
          else if x < 0 then (if 0 \<le> y then arctan (y / x) + pi else arctan (y / x) - pi)
          else if 0 < y then pi / 2 else if y < 0 then - pi / 2 else 0)"
| "js_atan2 (Fin y) PInf = Fin 0"
| "js_atan2 (Fin y) NInf = Fin (if 0 \<le> y then pi else - pi)"
| "js_atan2 PInf (Fin x) = Fin (pi / 2)"
| "js_atan2 NInf (Fin x) = Fin (- pi / 2)"
| "js_atan2 PInf PInf = Fin (pi / 4)"
| "js_atan2 PInf NInf = Fin (3 * pi / 4)"
| "js_atan2 NInf PInf = Fin (- pi / 4)"
| "js_atan2 NInf NInf = Fin (- 3 * pi / 4)"

text \<open>
  The remainder \<^verbatim>\<open>a % b\<close>: the quotient is truncated towards zero, so the result has
  the sign of \<open>a\<close>; NaN for an infinite \<open>a\<close> or a zero \<open>b\<close>, \<open>a\<close> itself for a finite
  \<open>a\<close> and an infinite \<open>b\<close>.
\<close>

definition trunc :: "real \<Rightarrow> int" where
  "trunc x = (if 0 \<le> x then \<lfloor>x\<rfloor> else \<lceil>x\<rceil>)"

fun js_mod :: "jsnum \<Rightarrow> jsnum \<Rightarrow> jsnum" where
  "js_mod NaN _ = NaN"
| "js_mod _ NaN = NaN"
| "js_mod (Fin x) (Fin y) = (if y = 0 then NaN else Fin (x - y * of_int (trunc (x / y))))"
| "js_mod (Fin x) _ = Fin x"
| "js_mod _ _ = NaN"

section \<open>Distances between waypoints\<close>

text \<open>
  An object with \<^verbatim>\<open>lng\<close> and \<^verbatim>\<open>lat\<close>. The functions of the module read these two
  fields of a waypoint and no other, so they take any extension of the record.
\<close>

record lnglat =
  lng :: jsnum
  lat :: jsnum

text \<open>A GeoJSON position \<^verbatim>\<open>[lng, lat]\<close>.\<close>

type_synonym position = "jsnum \<times> jsnum"

text \<open>
  \<^verbatim>\<open>
  export const calculateDistance = (wp1, wp2) => {
      const from = turf.point([wp1.lng, wp1.lat]);
      const to = turf.point([wp2.lng, wp2.lat]);
      return turf.distance(from, to, { units: 'meters' });
  };
  \<close>
  \<^verbatim>\<open>turf.distance\<close> belongs to the library \<^verbatim>\<open>@turf/turf\<close>, outside the repository: it is
  the parameter \<open>distance\<close>, a function of two positions that returns metres. The
  parameter is total: a raise of \<^verbatim>\<open>turf.point\<close>, which rejects a coordinate that is not
  a number, is not part of this function's model.
\<close>

definition calculateDistance ::
  "(position \<Rightarrow> position \<Rightarrow> jsnum) \<Rightarrow> 'a lnglat_scheme \<Rightarrow> 'a lnglat_scheme \<Rightarrow> jsnum" where
  "calculateDistance distance wp1 wp2 =
     (let from = (lng wp1, lat wp1);
          to = (lng wp2, lat wp2)
      in distance from to)"

text \<open>
  Modelled from the spec: the geodesic distance of the Geometry Kernel, which the code
  takes from the library \<^verbatim>\<open>@turf/turf\<close> (not among the sources). The spec asks for a
  spherical-earth approximation; this is the haversine formula of \<^verbatim>\<open>turf.distance\<close> on
  a sphere of radius 6371008.8 m, with the library's conversion of degrees,
  \<^verbatim>\<open>(degrees % 360) * Math.PI / 180\<close>. It instantiates the parameter \<open>distance\<close> in the
  closed examples.
\<close>

definition degreesToRadians :: "jsnum \<Rightarrow> jsnum" where
  "degreesToRadians degrees = js_div (js_mul (js_mod degrees (Fin 360)) (Fin pi)) (Fin 180)"

definition turf_distance :: "position \<Rightarrow> position \<Rightarrow> jsnum" where
  "turf_distance from to =
     (let dLat = degreesToRadians (js_sub (snd to) (snd from));
          dLon = degreesToRadians (js_sub (fst to) (fst from));
          lat1 = degreesToRadians (snd from);
          lat2 = degreesToRadians (snd to);
          sLat = js_sin (js_div dLat (Fin 2));
          sLon = js_sin (js_div dLon (Fin 2));
          a = js_add (js_mul sLat sLat)
                (js_mul (js_mul (js_mul sLon sLon) (js_cos lat1)) (js_cos lat2))
      in js_mul (js_mul (Fin 2) (js_atan2 (js_sqrt a) (js_sqrt (js_sub (Fin 1) a))))
           (Fin 6371008.8))"

section \<open>Maximum safe speed\<close>

record speed_result =
  maxSpeed :: jsnum
  minDistance :: jsnum

text \<open>
  The loop of \<^verbatim>\<open>calculateMaxSpeed\<close>, from index \<open>i\<close> with the distances pushed so far:
  \<^verbatim>\<open>
  for (let i = 0; i < waypoints.length - 1; i++) {
      const distance = calculateDistance(waypoints[i], waypoints[i + 1]);
      distances.push(distance);
  }
  \<close>
\<close>

function calculateMaxSpeed_loop ::
  "(position \<Rightarrow> position \<Rightarrow> jsnum) \<Rightarrow> 'a lnglat_scheme list \<Rightarrow> nat \<Rightarrow> jsnum list
     \<Rightarrow> jsnum list" where
  "calculateMaxSpeed_loop distance waypoints i distances =
     (if int i < int (length waypoints) - 1
      then calculateMaxSpeed_loop distance waypoints (i + 1)
             (distances @ [calculateDistance distance (waypoints ! i) (waypoints ! (i + 1))])
      else distances)"
  by pat_completeness auto
termination
  by (relation "measure (\<lambda>(distance, waypoints, i, distances). length waypoints - i)") auto

declare calculateMaxSpeed_loop.simps [simp del]

text \<open>The distances of the consecutive pairs of a waypoint list, by index.\<close>

definition legs :: "(position \<Rightarrow> position \<Rightarrow> jsnum) \<Rightarrow> 'a lnglat_scheme list \<Rightarrow> jsnum list" where
  "legs distance ws =
     map (\<lambda>k. calculateDistance distance (ws ! k) (ws ! (k + 1))) [0..<length ws - 1]"

text \<open>
  \<^verbatim>\<open>
  export const calculateMaxSpeed = (waypoints, photoInterval) => {
      if (!waypoints || waypoints.length < 2 || !photoInterval || photoInterval <= 0) {
          return { maxSpeed: 0, minDistance: 0 };
      }
      const distances = [];
      for (...) { ... }
      const minDistance = Math.min(...distances);
      const maxSpeed = minDistance / photoInterval;
      return {
          maxSpeed: Math.max(0, maxSpeed), // Ensure non-negative
          minDistance
      };
  };
  \<close>
  \<open>waypoints\<close> is \<open>None\<close> for \<^verbatim>\<open>null\<close> or \<^verbatim>\<open>undefined\<close>.
\<close>

definition calculateMaxSpeed ::
  "(position \<Rightarrow> position \<Rightarrow> jsnum) \<Rightarrow> 'a lnglat_scheme list option \<Rightarrow> jsnum
     \<Rightarrow> speed_result" where
  "calculateMaxSpeed distance waypoints photoInterval =
     (case waypoints of
        None \<Rightarrow> \<lparr>maxSpeed = Fin 0, minDistance = Fin 0\<rparr>
      | Some wps \<Rightarrow>
          if length wps < 2 \<or> \<not> js_truthy photoInterval \<or> js_le photoInterval (Fin 0)
          then \<lparr>maxSpeed = Fin 0, minDistance = Fin 0\<rparr>
          else let distances = calculateMaxSpeed_loop distance wps 0 [];
                   minDistance = js_min_list distances;
                   maxSpeed = js_div minDistance photoInterval
               in \<lparr>maxSpeed = js_max (Fin 0) maxSpeed, minDistance = minDistance\<rparr>)"

section \<open>JavaScript values and objects\<close>

text \<open>
  A value read from an object, and an object as a map from property names to values. A
  property that is missing reads as \<^verbatim>\<open>undefined\<close>.
\<close>

datatype jsval = JUndefined | JNull | JBool bool | JNum jsnum | JStr string

type_synonym js_object = "string \<rightharpoonup> jsval"

definition js_get :: "js_object \<Rightarrow> string \<Rightarrow> jsval" where
  "js_get obj k = (case obj k of None \<Rightarrow> JUndefined | Some v \<Rightarrow> v)"

text \<open>
  A numeric setting handed to a function on numbers. The store keeps numbers in these
  fields; a missing one is \<^verbatim>\<open>undefined\<close>, which every guard \<^verbatim>\<open>!x\<close> below treats as it
  treats NaN.
\<close>

fun num_of :: "jsval \<Rightarrow> jsnum" where
  "num_of (JNum n) = n"
| "num_of _ = NaN"

text \<open>
  A call \<^verbatim>\<open>f(a, b, c1, ..., cn)\<close> of an arrow function that declares two parameters:
  the surplus arguments are evaluated and dropped (an arrow function has no
  \<^verbatim>\<open>arguments\<close> object through which to reach them).
\<close>

definition call2 :: "('a \<Rightarrow> 'b \<Rightarrow> 'r) \<Rightarrow> 'a \<Rightarrow> 'b \<Rightarrow> jsval list \<Rightarrow> 'r" where
  "call2 f a b surplus = f a b"

text \<open>
  Step 2 of \<^verbatim>\<open>handleGenerate\<close> (hook \<^verbatim>\<open>useMissionGeneration\<close>), with the path of step 1
  and the effective field of view as given:
  \<^verbatim>\<open>
  const photoInterval = currentSettings.photoInterval;
  const { maxSpeed } = calculateMaxSpeed(
    initialPath,
    photoInterval,
    currentSettings.altitude,
    effectiveFOV,
    currentSettings.gimbalPitch,
    currentSettings.frontOverlap
  );
  \<close>
\<close>

definition handleGenerate_maxSpeed ::
  "(position \<Rightarrow> position \<Rightarrow> jsnum) \<Rightarrow> 'a lnglat_scheme list \<Rightarrow> js_object \<Rightarrow> jsval \<Rightarrow> jsnum" where
  "handleGenerate_maxSpeed distance initialPath currentSettings effectiveFOV =
     (let photoInterval = num_of (js_get currentSettings ''photoInterval'')
      in maxSpeed (call2 (calculateMaxSpeed distance) (Some initialPath) photoInterval
           [js_get currentSettings ''altitude'', effectiveFOV,
            js_get currentSettings ''gimbalPitch'', js_get currentSettings ''frontOverlap'']))"

section \<open>Camera footprint\<close>

text \<open>A GeoJSON geometry, and a feature: a geometry with a properties object.\<close>

datatype geometry = Point position | LineString "position list" | Polygon "position list list"

record feature =
  geometry :: geometry
  properties :: js_object

text \<open>A raised \<^verbatim>\<open>Error\<close>, with its message.\<close>

datatype error = Error string

text \<open>
  An argument that is a number, \<^verbatim>\<open>null\<close> or \<^verbatim>\<open>undefined\<close>; in arithmetic \<^verbatim>\<open>null\<close> counts
  as 0 and \<^verbatim>\<open>undefined\<close> as NaN.
\<close>

datatype opt_num = ArgUndefined | ArgNull | ArgNum jsnum

fun to_number :: "opt_num \<Rightarrow> jsnum" where
  "to_number ArgUndefined = NaN"
| "to_number ArgNull = Fin 0"
| "to_number (ArgNum n) = n"

fun to_jsval :: "opt_num \<Rightarrow> jsval" where
  "to_jsval ArgUndefined = JUndefined"
| "to_jsval ArgNull = JNull"
| "to_jsval (ArgNum n) = JNum n"

text \<open>
  The functions that \<^verbatim>\<open>calculateFootprint\<close> calls in the library \<^verbatim>\<open>@turf/turf\<close>, outside
  the repository: \<^verbatim>\<open>turf.point(coordinates)\<close>, of which the model keeps the position,
  \<^verbatim>\<open>turf.destination(origin, distance, bearing, { units: 'kilometers' })\<close>, of which it
  keeps the position reached, and \<^verbatim>\<open>turf.polygon(rings, properties)\<close>. Each of them
  either returns or raises. They are parameters of the model.
\<close>

record turf_lib =
  lib_point :: "position \<Rightarrow> error + position"
  lib_destination :: "position \<Rightarrow> jsnum \<Rightarrow> jsnum \<Rightarrow> error + position"
  lib_polygon :: "position list list \<Rightarrow> js_object \<Rightarrow> error + feature"

text \<open>A corner of the frame in camera space, \<^verbatim>\<open>{ x, y, z }\<close>.\<close>

record corner =
  cam_x :: jsnum
  cam_y :: jsnum
  cam_z :: jsnum

text \<open>
  The four corners, normalised at \<open>z = 1\<close>, in the order TR, BR, BL, TL:
  \<^verbatim>\<open>
  const cornersCam = [
      { x: halfH, y: halfV, z: 1 },   { x: halfH, y: -halfV, z: 1 },
      { x: -halfH, y: -halfV, z: 1 }, { x: -halfH, y: halfV, z: 1 }
  ];
  \<close>
\<close>

definition cornersCam :: "jsnum \<Rightarrow> jsnum \<Rightarrow> corner list" where
  "cornersCam halfH halfV =
     [\<lparr>cam_x = halfH, cam_y = halfV, cam_z = Fin 1\<rparr>,
      \<lparr>cam_x = halfH, cam_y = js_neg halfV, cam_z = Fin 1\<rparr>,
      \<lparr>cam_x = js_neg halfH, cam_y = js_neg halfV, cam_z = Fin 1\<rparr>,
      \<lparr>cam_x = js_neg halfH, cam_y = halfV, cam_z = Fin 1\<rparr>]"

text \<open>
  The body of the loop over the corners, up to the geodesic projection: the ground
  distance \<^verbatim>\<open>dist\<close> and the angle \<^verbatim>\<open>angle\<close> of one corner. Only the second branch
  compares \<^verbatim>\<open>dist\<close> with \<^verbatim>\<open>MAX_RENDER_DIST\<close>; the first computes it from \<^verbatim>\<open>dx\<close> and
  \<^verbatim>\<open>dy\<close>. The arithmetic of the model is exact, so the two agree up to the rounding
  of doubles only.
  \<^verbatim>\<open>
  const rx = p.x;
  const ry = p.z * Math.cos(pitchRad) - p.y * Math.sin(pitchRad);
  const rz = p.z * Math.sin(pitchRad) + p.y * Math.cos(pitchRad);
  let dist, angle;
  if (rz >= -0.001) {
      const horizontalMag = Math.sqrt(rx * rx + ry * ry);
      const t = MAX_RENDER_DIST / horizontalMag;
      const dx = t * rx;
      const dy = t * ry;
      dist = Math.sqrt(dx * dx + dy * dy);
      angle = Math.atan2(dx, dy) * (180 / Math.PI);
  } else {
      const t = -altitude / rz;
      const dx = t * rx;
      const dy = t * ry;
      dist = Math.sqrt(dx * dx + dy * dy);
      if (dist > MAX_RENDER_DIST) dist = MAX_RENDER_DIST;
      angle = Math.atan2(dx, dy) * (180 / Math.PI);
  }
  \<close>
\<close>

definition body_rx :: "corner \<Rightarrow> jsnum" where
  "body_rx p = cam_x p"

definition body_ry :: "jsnum \<Rightarrow> corner \<Rightarrow> jsnum" where
  "body_ry pitchRad p =
     js_sub (js_mul (cam_z p) (js_cos pitchRad)) (js_mul (cam_y p) (js_sin pitchRad))"

definition body_rz :: "jsnum \<Rightarrow> corner \<Rightarrow> jsnum" where
  "body_rz pitchRad p =
     js_add (js_mul (cam_z p) (js_sin pitchRad)) (js_mul (cam_y p) (js_cos pitchRad))"

definition projectCorner :: "jsnum \<Rightarrow> jsnum \<Rightarrow> corner \<Rightarrow> jsnum \<times> jsnum" where
  "projectCorner altitude pitchRad p =
     (let MAX_RENDER_DIST = js_mul altitude (Fin 10);
          rx = body_rx p;
          ry = body_ry pitchRad p;
          rz = body_rz pitchRad p
      in if js_ge rz (Fin (- 0.001)) then
           let horizontalMag = js_sqrt (js_add (js_mul rx rx) (js_mul ry ry));
               t = js_div MAX_RENDER_DIST horizontalMag;
               dx = js_mul t rx;
               dy = js_mul t ry;
               dist = js_sqrt (js_add (js_mul dx dx) (js_mul dy dy));
               angle = js_mul (js_atan2 dx dy) (js_div (Fin 180) (Fin pi))
           in (dist, angle)
         else
           let t = js_div (js_neg altitude) rz;
               dx = js_mul t rx;
               dy = js_mul t ry;
               dist = js_sqrt (js_add (js_mul dx dx) (js_mul dy dy));
               dist = (if js_gt dist MAX_RENDER_DIST then MAX_RENDER_DIST else dist);
               angle = js_mul (js_atan2 dx dy) (js_div (Fin 180) (Fin pi))
           in (dist, angle))"

text \<open>
  The camera-space corners of a field of view:
  \<^verbatim>\<open>
  const aspectRatio = 4 / 3;
  const hfovRad = (hfov * Math.PI) / 180;
  const vfovRad = 2 * Math.atan(Math.tan(hfovRad / 2) / aspectRatio);
  const halfH = Math.tan(hfovRad / 2);
  const halfV = Math.tan(vfovRad / 2);
  \<close>
\<close>

definition footprintCorners :: "jsnum \<Rightarrow> corner list" where
  "footprintCorners hfov =
     (let aspectRatio = js_div (Fin 4) (Fin 3);
          hfovRad = js_div (js_mul hfov (Fin pi)) (Fin 180);
          vfovRad = js_mul (Fin 2) (js_atan (js_div (js_tan (js_div hfovRad (Fin 2))) aspectRatio));
          halfH = js_tan (js_div hfovRad (Fin 2));
          halfV = js_tan (js_div vfovRad (Fin 2))
      in cornersCam halfH halfV)"

text \<open>
  Steps 3 to 5 of the loop body for one corner: the projection, then
  \<^verbatim>\<open>
  const finalBearing = heading + angle;
  const dest = turf.destination(centerPt, dist / 1000, finalBearing, { units: 'kilometers' });
  \<close>
\<close>

definition cornerDestination ::
  "turf_lib \<Rightarrow> position \<Rightarrow> jsnum \<Rightarrow> jsnum \<Rightarrow> jsnum \<Rightarrow> corner \<Rightarrow> error + position" where
  "cornerDestination turf centerPt altitude pitchRad heading p =
     (let (dist, angle) = projectCorner altitude pitchRad p;
          finalBearing = js_add heading angle
      in lib_destination turf centerPt (js_div dist (Fin 1000)) finalBearing)"

text \<open>
  The loop \<^verbatim>\<open>for (const p of cornersCam) { ...; coords.push(dest.geometry.coordinates); }\<close>
  over the corners that remain, with the positions pushed so far. A raise of
  \<^verbatim>\<open>turf.destination\<close> ends it.
\<close>

fun calculateFootprint_loop ::
  "turf_lib \<Rightarrow> position \<Rightarrow> jsnum \<Rightarrow> jsnum \<Rightarrow> jsnum \<Rightarrow> corner list \<Rightarrow> position list
     \<Rightarrow> error + position list" where
  "calculateFootprint_loop turf centerPt altitude pitchRad heading [] coords = Inr coords"
| "calculateFootprint_loop turf centerPt altitude pitchRad heading (p # ps) coords =
     (case cornerDestination turf centerPt altitude pitchRad heading p of
        Inl e \<Rightarrow> Inl e
      | Inr dest \<Rightarrow>
          calculateFootprint_loop turf centerPt altitude pitchRad heading ps (coords @ [dest]))"

text \<open>
  \<^verbatim>\<open>
  export const calculateFootprint = (center, altitude, heading, hfov, gimbalPitch = -90) => {
      if (!center || !altitude || !hfov) return null;
      const pitchRad = (gimbalPitch * Math.PI) / 180;
      ...
      const centerPt = turf.point([center.lng, center.lat]);
      const coords = [];
      const MAX_RENDER_DIST = altitude * 10;
      for (const p of cornersCam) { ... }
      coords.push(coords[0]);
      return turf.polygon([coords], { altitude, heading, hfov, pitch: gimbalPitch });
  };
  \<close>
  The result is \<open>Inl e\<close> when the call raises \<open>e\<close>, \<open>Inr None\<close> for \<^verbatim>\<open>null\<close> and
  \<open>Inr (Some F)\<close> for the feature \<open>F\<close>. For \<open>center\<close>, \<open>altitude\<close> and \<open>hfov\<close>,
  which the guard tests first, \<open>None\<close> is \<^verbatim>\<open>null\<close> or \<^verbatim>\<open>undefined\<close>. The default of
  \<^verbatim>\<open>gimbalPitch\<close> applies to \<^verbatim>\<open>undefined\<close> only: a \<^verbatim>\<open>null\<close> pitch is 0 in the product and
  is stored as \<^verbatim>\<open>null\<close>.
\<close>

text \<open>The value of the parameter \<^verbatim>\<open>gimbalPitch = -90\<close> for a given argument.\<close>

definition defaultPitch :: "opt_num \<Rightarrow> opt_num" where
  "defaultPitch gimbalPitch =
     (case gimbalPitch of ArgUndefined \<Rightarrow> ArgNum (Fin (- 90)) | _ \<Rightarrow> gimbalPitch)"

definition footprintProperties :: "jsnum \<Rightarrow> opt_num \<Rightarrow> jsnum \<Rightarrow> opt_num \<Rightarrow> js_object" where
  "footprintProperties altitude heading hfov gimbalPitch =
     [''altitude'' \<mapsto> JNum altitude, ''heading'' \<mapsto> to_jsval heading,
      ''hfov'' \<mapsto> JNum hfov, ''pitch'' \<mapsto> to_jsval gimbalPitch]"

definition calculateFootprint ::
  "turf_lib \<Rightarrow> 'a lnglat_scheme option \<Rightarrow> jsnum option \<Rightarrow> opt_num \<Rightarrow> jsnum option \<Rightarrow> opt_num
     \<Rightarrow> error + feature option" where
  "calculateFootprint turf center altitude heading hfov gimbalPitch =
     (case center of
        None \<Rightarrow> Inr None
      | Some c \<Rightarrow>
          (case altitude of
             None \<Rightarrow> Inr None
           | Some alt \<Rightarrow>
               if \<not> js_truthy alt then Inr None
               else (case hfov of
                       None \<Rightarrow> Inr None
                     | Some fov \<Rightarrow>
                         if \<not> js_truthy fov then Inr None
                         else
                           let pitch = defaultPitch gimbalPitch;
                               pitchRad = js_div (js_mul (to_number pitch) (Fin pi)) (Fin 180)
                           in case lib_point turf (lng c, lat c) of
                                Inl e \<Rightarrow> Inl e
                              | Inr centerPt \<Rightarrow>
                                  (case calculateFootprint_loop turf centerPt alt pitchRad
                                          (to_number heading) (footprintCorners fov) [] of
                                     Inl e \<Rightarrow> Inl e
                                   | Inr coords \<Rightarrow>
                                       (case lib_polygon turf [coords @ [coords ! 0]]
                                               (footprintProperties alt heading fov pitch) of
                                          Inl e \<Rightarrow> Inl e
                                        | Inr F \<Rightarrow> Inr (Some F))))))"









section \<open>Import of a mission file\<close>

text \<open>
  A waypoint of the store: \<^verbatim>\<open>{ id, lng, lat, altitude, speed, gimbalPitch, heading }\<close>.
  The per-point fields hold whatever the file or the settings gave.
\<close>

record waypoint = lnglat +
  id_wp :: string
  altitude :: jsval
  speed :: jsval
  gimbalPitch :: jsval
  heading :: jsval

text \<open>
  The object pushed for a feature \<open>f\<close> whose geometry is a point at \<open>c\<close>, in
  \<^verbatim>\<open>processFile\<close> (component \<^verbatim>\<open>SidebarMain\<close>); \<open>uuid\<close> is the result of
  \<^verbatim>\<open>generateUUID()\<close>:
  \<^verbatim>\<open>
  newPoints.push({
    id: generateUUID(),
    lng: f.geometry.coordinates[0],
    lat: f.geometry.coordinates[1],
    altitude: f.properties.altitude !== undefined ? f.properties.altitude : settings.altitude,
    speed: f.properties.speed !== undefined ? f.properties.speed : settings.speed,
    gimbalPitch: f.properties.gimbalPitch !== undefined ? f.properties.gimbalPitch : settings.gimbalPitch,
    heading: f.properties.heading !== undefined ? f.properties.heading : 0
  });
  \<close>
\<close>

definition newPoint :: "js_object \<Rightarrow> string \<Rightarrow> position \<Rightarrow> feature \<Rightarrow> waypoint" where
  "newPoint settings uuid c f =
     \<lparr>lng = fst c,
      lat = snd c,
      id_wp = uuid,
      altitude = (if js_get (properties f) ''altitude'' \<noteq> JUndefined
                  then js_get (properties f) ''altitude'' else js_get settings ''altitude''),
      speed = (if js_get (properties f) ''speed'' \<noteq> JUndefined
               then js_get (properties f) ''speed'' else js_get settings ''speed''),
      gimbalPitch = (if js_get (properties f) ''gimbalPitch'' \<noteq> JUndefined
                     then js_get (properties f) ''gimbalPitch'' else js_get settings ''gimbalPitch''),
      heading = (if js_get (properties f) ''heading'' \<noteq> JUndefined
                 then js_get (properties f) ''heading'' else JNum (Fin 0))\<rparr>"

text \<open>
  The loop of \<^verbatim>\<open>processFile\<close> over the parsed features, with the points pushed so far;
  \<open>uuids n\<close> is the identifier that the \<open>n\<close>-th call of \<^verbatim>\<open>generateUUID\<close> returns.
  \<^verbatim>\<open>
  geojson.features.forEach(f => {
    if (f.geometry.type === "Point") {
      newPoints.push({ ... });
    }
  });
  \<close>
\<close>

fun processFile_forEach ::
  "js_object \<Rightarrow> (nat \<Rightarrow> string) \<Rightarrow> feature list \<Rightarrow> waypoint list \<Rightarrow> waypoint list" where
  "processFile_forEach settings uuids [] newPoints = newPoints"
| "processFile_forEach settings uuids (f # features) newPoints =
     processFile_forEach settings uuids features
       (case geometry f of
          Point c \<Rightarrow> newPoints @ [newPoint settings (uuids (length newPoints)) c f]
        | _ \<Rightarrow> newPoints)"

text \<open>The features of a file that are points, in order, each with its position.\<close>

definition pointFeatures :: "feature list \<Rightarrow> (position \<times> feature) list" where
  "pointFeatures features =
     List.map_filter (\<lambda>f. case geometry f of Point c \<Rightarrow> Some (c, f) | _ \<Rightarrow> None) features"

text \<open>
  Modelled from the spec: the settings of a fresh store, declared in the missing
  \<^verbatim>\<open>useMissionStore.js\<close>; the architecture notes of the repository list the fields and
  their defaults, of which the per-point ones are kept here. There is no field
  \<^verbatim>\<open>heading\<close>.
\<close>

definition default_settings :: js_object where
  "default_settings =
     [''altitude'' \<mapsto> JNum (Fin 60), ''speed'' \<mapsto> JNum (Fin 10),
      ''gimbalPitch'' \<mapsto> JNum (Fin (- 90)), ''photoInterval'' \<mapsto> JNum (Fin 2),
      ''frontOverlap'' \<mapsto> JNum (Fin 80), ''customFOV'' \<mapsto> JNum (Fin 82.1)]"

section \<open>Properties of the flight metrics\<close>

lemma round_nearest: "\<bar>of_int \<lfloor>y + 1 / 2\<rfloor> - y\<bar> \<le> 1 / (2::real)"
  by linarith

text \<open>
  C2. With the threshold at 85%, \<open>getFlightWarningLevel\<close> answers \<open>safe\<close> when
  \<open>maxFlightTimeMinutes\<close> is zero or negative (no limit), and, for a positive limit,
  \<open>safe\<close> when the mission time is below 85% of the limit in seconds, \<open>warning\<close> when
  it is at or above 85% and below 100%, and \<open>critical\<close> when it is at or above 100%.
  In particular a limit of 0 gives \<open>safe\<close> for every time \<open>t \<ge> 0\<close>.
\<close>

theorem getFlightWarningLevel_tiers:
  "(js_le m (Fin 0) \<longrightarrow> getFlightWarningLevel FLIGHT_WARNING_THRESHOLD t m = safe) \<and>
   (js_gt m (Fin 0) \<and> js_lt t (js_mul (Fin (85 / 100)) (js_mul m (Fin 60)))
      \<longrightarrow> getFlightWarningLevel FLIGHT_WARNING_THRESHOLD t m = safe) \<and>
   (js_gt m (Fin 0) \<and> js_ge t (js_mul (Fin (85 / 100)) (js_mul m (Fin 60)))
        \<and> js_lt t (js_mul m (Fin 60))
      \<longrightarrow> getFlightWarningLevel FLIGHT_WARNING_THRESHOLD t m = warning) \<and>
   (js_gt m (Fin 0) \<and> js_ge t (js_mul m (Fin 60))
      \<longrightarrow> getFlightWarningLevel FLIGHT_WARNING_THRESHOLD t m = critical) \<and>
   (js_ge t (Fin 0) \<longrightarrow> getFlightWarningLevel FLIGHT_WARNING_THRESHOLD t (Fin 0) = safe)"
  by (cases m; cases t)
     (auto simp: getFlightWarningLevel_def FLIGHT_WARNING_THRESHOLD_def js_gt_def js_ge_def
        inf_of_sign_def Let_def)

theorem getFlightWarningLevel_tiers_witness:
  "getFlightWarningLevel FLIGHT_WARNING_THRESHOLD (Fin 100) (Fin (- 1)) = safe \<and>
   getFlightWarningLevel FLIGHT_WARNING_THRESHOLD (Fin 1529) (Fin 30) = safe \<and>
   getFlightWarningLevel FLIGHT_WARNING_THRESHOLD (Fin 1530) (Fin 30) = warning \<and>
   getFlightWarningLevel FLIGHT_WARNING_THRESHOLD (Fin 1800) (Fin 30) = critical \<and>
   getFlightWarningLevel FLIGHT_WARNING_THRESHOLD (Fin 5) (Fin 0) = safe"
  using getFlightWarningLevel_tiers [of "Fin (- 1)" "Fin 100"]
    getFlightWarningLevel_tiers [of "Fin 30" "Fin 1529"]
    getFlightWarningLevel_tiers [of "Fin 30" "Fin 1530"]
    getFlightWarningLevel_tiers [of "Fin 30" "Fin 1800"]
    getFlightWarningLevel_tiers [of "Fin 0" "Fin 5"]
  by (simp add: js_gt_def js_ge_def)

text \<open>
  C3. For every speed above 0, \<open>calculateMissionTime\<close> returns
  \<open>totalDistance / speed\<close> plus the overhead constant, rounded by \<^verbatim>\<open>Math.round\<close>; for
  every speed at or below 0 it returns the overhead constant itself, whatever the
  distance. On finite numbers the result is an integer within half a second of
  \<open>totalDistance / speed + overhead\<close>.
\<close>

theorem calculateMissionTime_spec:
  "(js_gt v (Fin 0) \<longrightarrow>
      calculateMissionTime ovh d v = js_round (js_add (js_div d v) ovh)) \<and>
   (js_le v (Fin 0) \<longrightarrow> calculateMissionTime ovh d v = ovh) \<and>
   (0 < s \<longrightarrow> (\<exists>k::int. calculateMissionTime (Fin c) (Fin x) (Fin s) = Fin (of_int k)
       \<and> \<bar>of_int k - (x / s + c)\<bar> \<le> 1 / 2))"
proof -
  have "calculateMissionTime (Fin c) (Fin x) (Fin s) = Fin (of_int \<lfloor>x / s + c + 1 / 2\<rfloor>)"
    if "0 < s"
    using that by (simp add: calculateMissionTime_def)
  moreover have "js_gt v (Fin 0) \<longrightarrow>
      calculateMissionTime ovh d v = js_round (js_add (js_div d v) ovh)"
    by (cases v) (auto simp: calculateMissionTime_def js_gt_def)
  moreover have "js_le v (Fin 0) \<longrightarrow> calculateMissionTime ovh d v = ovh"
    by (simp add: calculateMissionTime_def)
  ultimately show ?thesis
    using round_nearest [of "x / s + c"] by blast
qed

theorem calculateMissionTime_spec_witness:
  "calculateMissionTime (Fin 0) (Fin 1000) (Fin 3) = Fin 333 \<and>
   calculateMissionTime (Fin 0) (Fin 1000) (Fin 0) = Fin 0 \<and>
   calculateMissionTime (Fin 7) (Fin 1000) (Fin (- 2)) = Fin 7 \<and>
   (\<exists>k::int. calculateMissionTime (Fin 0) (Fin 1000) (Fin 3) = Fin (of_int k)
       \<and> \<bar>of_int k - (1000 / 3 + 0)\<bar> \<le> (1 / 2 :: real))"
  using calculateMissionTime_spec [of "Fin 3" "Fin 0" "Fin 1000" 3 0 1000]
    calculateMissionTime_spec [of "Fin 0" "Fin 0" "Fin 1000" 1 0 0]
    calculateMissionTime_spec [of "Fin (- 2)" "Fin 7" "Fin 1000" 1 0 0]
  by (simp add: js_gt_def)

section \<open>Properties of the maximum safe speed\<close>

text \<open>The loop collects the distances of the consecutive pairs, in order.\<close>

lemma calculateMaxSpeed_loop_eq:
  "calculateMaxSpeed_loop distance ws i acc =
     acc @ map (\<lambda>k. calculateDistance distance (ws ! k) (ws ! (k + 1))) [i..<length ws - 1]"
proof (induction distance ws i acc rule: calculateMaxSpeed_loop.induct)
  case (1 distance waypoints i distances)
  show ?case
  proof (cases "int i < int (length waypoints) - 1")
    case True
    then have lt: "i < length waypoints - 1" by linarith
    have "[i..<length waypoints - 1] = i # [i + 1..<length waypoints - 1]"
      using lt by (simp add: upt_conv_Cons)
    with 1 True show ?thesis
      by (subst calculateMaxSpeed_loop.simps) simp
  next
    case False
    then have "\<not> i < length waypoints - 1" by linarith
    with False show ?thesis
      by (subst calculateMaxSpeed_loop.simps) simp
  qed
qed

lemma js_min_cases:
  "a \<noteq> NaN \<Longrightarrow> b \<noteq> NaN \<Longrightarrow>
     (js_min a b = a \<or> js_min a b = b) \<and> js_le (js_min a b) a \<and> js_le (js_min a b) b"
  by (cases a; cases b) auto

lemma js_le_trans: "js_le a b \<Longrightarrow> js_le b c \<Longrightarrow> js_le a c"
  by (cases a; cases b; cases c) auto

lemma foldl_js_min:
  "a \<noteq> NaN \<Longrightarrow> \<forall>d\<in>set xs. d \<noteq> NaN \<Longrightarrow>
     foldl js_min a xs \<noteq> NaN \<and>
     (foldl js_min a xs = a \<or> foldl js_min a xs \<in> set xs) \<and>
     js_le (foldl js_min a xs) a \<and> (\<forall>d\<in>set xs. js_le (foldl js_min a xs) d)"
proof (induction xs arbitrary: a)
  case Nil
  then show ?case by (cases a) auto
next
  case (Cons x xs)
  let ?b = "js_min a x"
  let ?r = "foldl js_min ?b xs"
  from Cons.prems have x: "x \<noteq> NaN" by simp
  from js_min_cases [OF Cons.prems(1) x]
  have b: "?b = a \<or> ?b = x" "js_le ?b a" "js_le ?b x" by auto
  then have bn: "?b \<noteq> NaN" using Cons.prems(1) x by auto
  from Cons.IH [OF bn] Cons.prems(2)
  have ih: "?r \<noteq> NaN" "?r = ?b \<or> ?r \<in> set xs"
    "js_le ?r ?b" "\<forall>d\<in>set xs. js_le ?r d"
    by auto
  have "js_le ?r a" using ih(3) b(2) by (rule js_le_trans)
  moreover have "js_le ?r x" using ih(3) b(3) by (rule js_le_trans)
  moreover have "?r = a \<or> ?r \<in> set (x # xs)" using ih(2) b(1) by auto
  ultimately show ?case using ih(1,4) by simp
qed

lemma js_min_list_smallest:
  assumes "xs \<noteq> []" "\<forall>d\<in>set xs. \<exists>x. d = Fin x"
  shows "js_min_list xs \<in> set xs \<and> (\<forall>d\<in>set xs. js_le (js_min_list xs) d)"
proof -
  have nn: "\<forall>d\<in>set xs. d \<noteq> NaN" using assms(2) by auto
  from foldl_js_min [of PInf xs] nn
  have r: "foldl js_min PInf xs = PInf \<or> foldl js_min PInf xs \<in> set xs"
    "\<forall>d\<in>set xs. js_le (foldl js_min PInf xs) d" by auto
  obtain d where d: "d \<in> set xs" using assms(1) by (cases xs) auto
  then obtain x where "d = Fin x" using assms(2) by auto
  with r(2) d have "js_le (foldl js_min PInf xs) (Fin x)" by auto
  then have "foldl js_min PInf xs \<noteq> PInf" by auto
  with r show ?thesis by (simp add: js_min_list_def)
qed

lemma set_legs:
  "set (legs distance ws) =
     {calculateDistance distance (ws ! k) (ws ! (k + 1)) | k. k + 1 < length ws}"
  by (auto simp: legs_def)

lemma js_gt_zero: "js_gt p (Fin 0) \<Longrightarrow> js_truthy p \<and> \<not> js_le p (Fin 0)"
  by (cases p) (simp_all add: js_gt_def)

lemma calculateMaxSpeed_valid:
  assumes "2 \<le> length ws" and "js_gt p (Fin 0)"
  shows "calculateMaxSpeed distance (Some ws) p =
       \<lparr>maxSpeed = js_max (Fin 0) (js_div (js_min_list (legs distance ws)) p),
        minDistance = js_min_list (legs distance ws)\<rparr>"
  using assms(1) js_gt_zero [OF assms(2)]
  by (simp add: calculateMaxSpeed_def calculateMaxSpeed_loop_eq legs_def Let_def)

lemma calculateMaxSpeed_invalid:
  "length ws < 2 \<or> \<not> js_gt p (Fin 0) \<Longrightarrow>
     calculateMaxSpeed distance (Some ws) p = \<lparr>maxSpeed = Fin 0, minDistance = Fin 0\<rparr>"
  by (cases p) (auto simp: calculateMaxSpeed_def js_gt_def)

lemma js_max_nonneg:
  "0 \<le> x \<Longrightarrow> js_gt p (Fin 0) \<Longrightarrow> js_max (Fin 0) (js_div (Fin x) p) = js_div (Fin x) p"
  by (cases p) (auto simp: js_gt_def zero_less_divide_iff)

lemma turf_distance_antipodes:
  "turf_distance (Fin 0, Fin 0) (Fin 180, Fin 0) = Fin (pi * 6371008.8)"
  by (simp add: turf_distance_def degreesToRadians_def js_sub_def trunc_def Let_def)

lemma turf_distance_infinite:
  "turf_distance (PInf, Fin 0) (Fin 0, Fin 0) = NaN"
  by (simp add: turf_distance_def degreesToRadians_def js_sub_def trunc_def Let_def)

lemma legs_pair: "legs distance [a, b] = [calculateDistance distance a b]"
  by (simp add: legs_def)

lemma legs_triple:
  "legs distance [a, b, c] = [calculateDistance distance a b, calculateDistance distance b c]"
  by (simp add: legs_def numeral_3_eq_3)

lemma turf_distance_quarter:
  "turf_distance (Fin 180, Fin 0) (Fin 90, Fin 0) = Fin (pi * 6371008.8 / 2)"
proof -
  have c: "\<lceil>- (1 / 4 :: real)\<rceil> = 0" by (rule ceiling_unique) simp_all
  have s: "sin (pi / 4) * sin (pi / 4) = 1 / 2" by (simp add: sin_45)
  show ?thesis using c
    by (simp add: turf_distance_def degreesToRadians_def js_sub_def Let_def trunc_def s arctan_one)
qed

lemma foldl_js_min_NaN:
  "a = NaN \<or> NaN \<in> set xs \<Longrightarrow> foldl js_min a xs = NaN"
proof (induction xs arbitrary: a)
  case Nil
  then show ?case by simp
next
  case (Cons x xs)
  have "js_min a x = NaN \<or> NaN \<in> set xs"
    using Cons.prems by (cases a; cases x) auto
  then show ?case using Cons.IH by simp
qed

lemma speed_mono:
  "js_gt c1 (Fin 0) \<Longrightarrow> js_le c1 c2 \<Longrightarrow>
     js_le (js_max (Fin 0) (js_div (Fin x) c2)) (js_max (Fin 0) (js_div (Fin x) c1))"
proof (cases c1; cases c2)
  fix a b assume c: "c1 = Fin a" "c2 = Fin b" and "js_gt c1 (Fin 0)" "js_le c1 c2"
  then have ab: "0 < a" "a \<le> b" by (simp_all add: js_gt_def)
  then have b: "0 < b" by linarith
  show ?thesis
  proof (cases "0 \<le> x")
    case True
    then have "x / b \<le> x / a" using ab by (simp add: frac_le)
    moreover have "0 \<le> x / b" "0 \<le> x / a" using True ab b by simp_all
    ultimately show ?thesis using c ab b by simp
  next
    case False
    then have "x / b < 0" "x / a < 0" using ab b by (simp_all add: divide_neg_pos)
    then show ?thesis using c ab b by simp
  qed
qed (auto simp: js_gt_def)

text \<open>
  C1, as the code has it. For a waypoint list with at least two waypoints whose
  consecutive distances are all finite and not negative, and a photo interval above 0,
  \<open>calculateMaxSpeed\<close> returns as \<open>minDistance\<close> the smallest distance \<open>m\<close> between
  consecutive waypoints, and as \<open>maxSpeed\<close> that distance divided by the interval.
\<close>

theorem calculateMaxSpeed_smallest_leg:
  assumes "2 \<le> length ws" and "js_gt p (Fin 0)"
    and "\<forall>k. k + 1 < length ws \<longrightarrow>
           (\<exists>x\<ge>0. calculateDistance distance (ws ! k) (ws ! (k + 1)) = Fin x)"
  shows "\<exists>m. (\<exists>k. k + 1 < length ws \<and> m = calculateDistance distance (ws ! k) (ws ! (k + 1))) \<and>
     (\<forall>k. k + 1 < length ws \<longrightarrow> js_le m (calculateDistance distance (ws ! k) (ws ! (k + 1)))) \<and>
     calculateMaxSpeed distance (Some ws) p = \<lparr>maxSpeed = js_div m p, minDistance = m\<rparr>"
proof -
  let ?m = "js_min_list (legs distance ws)"
  have ne: "legs distance ws \<noteq> []" using assms(1) by (simp add: legs_def)
  have fin: "\<forall>d\<in>set (legs distance ws). \<exists>x. d = Fin x"
    using assms(3) by (auto simp: set_legs)
  from js_min_list_smallest [OF ne fin]
  have m: "?m \<in> set (legs distance ws)" "\<forall>d\<in>set (legs distance ws). js_le ?m d" by auto
  from m(1) obtain k where k: "k + 1 < length ws" "?m = calculateDistance distance (ws ! k) (ws ! (k + 1))"
    by (auto simp: set_legs)
  with assms(3) obtain x where x: "0 \<le> x" "?m = Fin x" by auto
  have "calculateMaxSpeed distance (Some ws) p = \<lparr>maxSpeed = js_div ?m p, minDistance = ?m\<rparr>"
    using calculateMaxSpeed_valid [OF assms(1,2)] js_max_nonneg [OF x(1) assms(2)] x(2) by simp
  moreover have "\<forall>k. k + 1 < length ws \<longrightarrow> js_le ?m (calculateDistance distance (ws ! k) (ws ! (k + 1)))"
    using m(2) by (auto simp: set_legs)
  ultimately show ?thesis using k by blast
qed

theorem calculateMaxSpeed_smallest_leg_witness:
  "2 \<le> length [\<lparr>lng = Fin 0, lat = Fin 0\<rparr>, \<lparr>lng = Fin 180, lat = Fin 0\<rparr>, \<lparr>lng = Fin 90, lat = Fin 0\<rparr>] \<and>
   js_gt (Fin 2) (Fin 0) \<and>
   calculateDistance turf_distance \<lparr>lng = Fin 0, lat = Fin 0\<rparr> \<lparr>lng = Fin 180, lat = Fin 0\<rparr>
     = Fin (pi * 6371008.8) \<and>
   calculateDistance turf_distance \<lparr>lng = Fin 180, lat = Fin 0\<rparr> \<lparr>lng = Fin 90, lat = Fin 0\<rparr>
     = Fin (pi * 6371008.8 / 2) \<and>
   calculateMaxSpeed turf_distance
      (Some [\<lparr>lng = Fin 0, lat = Fin 0\<rparr>, \<lparr>lng = Fin 180, lat = Fin 0\<rparr>, \<lparr>lng = Fin 90, lat = Fin 0\<rparr>]) (Fin 2)
    = \<lparr>maxSpeed = Fin (pi * 6371008.8 / 2 / 2), minDistance = Fin (pi * 6371008.8 / 2)\<rparr>"
proof -
  let ?a = "\<lparr>lng = Fin 0, lat = Fin 0\<rparr>" and ?b = "\<lparr>lng = Fin 180, lat = Fin 0\<rparr>" and ?c = "\<lparr>lng = Fin 90, lat = Fin 0\<rparr>"
  let ?ws = "[?a, ?b, ?c]"
  have d1: "calculateDistance turf_distance ?a ?b = Fin (pi * 6371008.8)"
    by (simp add: calculateDistance_def turf_distance_antipodes)
  have d2: "calculateDistance turf_distance ?b ?c = Fin (pi * 6371008.8 / 2)"
    by (simp add: calculateDistance_def turf_distance_quarter)
  have h1: "2 \<le> length ?ws" by simp
  have h2: "js_gt (Fin 2) (Fin 0)" by (simp add: js_gt_def)
  have e1: "\<exists>x\<ge>0. calculateDistance turf_distance ?a ?b = Fin x"
    using d1 by (intro exI [of _ "pi * 6371008.8"]) simp
  have e2: "\<exists>x\<ge>0. calculateDistance turf_distance ?b ?c = Fin x"
    using d2 by (intro exI [of _ "pi * 6371008.8 / 2"]) simp
  have h3: "\<forall>k. k + 1 < length ?ws \<longrightarrow>
           (\<exists>x\<ge>0. calculateDistance turf_distance (?ws ! k) (?ws ! (k + 1)) = Fin x)"
  proof (intro allI impI)
    fix k assume "k + 1 < length ?ws"
    then have "k = 0 \<or> k = 1" by auto
    then show "\<exists>x\<ge>0. calculateDistance turf_distance (?ws ! k) (?ws ! (k + 1)) = Fin x"
      using e1 e2 by auto
  qed
  from calculateMaxSpeed_smallest_leg [OF h1 h2 h3]
  obtain m where
    mem: "\<exists>k. k + 1 < length ?ws \<and> m = calculateDistance turf_distance (?ws ! k) (?ws ! (k + 1))" and
    least: "\<forall>k. k + 1 < length ?ws \<longrightarrow>
              js_le m (calculateDistance turf_distance (?ws ! k) (?ws ! (k + 1)))" and
    res: "calculateMaxSpeed turf_distance (Some ?ws) (Fin 2)
            = \<lparr>maxSpeed = js_div m (Fin 2), minDistance = m\<rparr>"
    by blast
  from mem obtain k where k: "k + 1 < length ?ws"
      "m = calculateDistance turf_distance (?ws ! k) (?ws ! (k + 1))"
    by blast
  from k(1) have "k = 0 \<or> k = 1" by auto
  with k(2) d1 d2 have m12: "m = Fin (pi * 6371008.8) \<or> m = Fin (pi * 6371008.8 / 2)"
    by auto
  from least [rule_format, of 1] d2 have le: "js_le m (Fin (pi * 6371008.8 / 2))" by simp
  have "\<not> pi * 6371008.8 \<le> pi * 6371008.8 / 2" using pi_gt_zero by simp
  with m12 le have "m = Fin (pi * 6371008.8 / 2)" by auto
  with res h1 h2 d1 d2 show ?thesis by simp
qed

text \<open>
  C1, where it fails. On a list of three waypoints whose first leg has the distance NaN
  (the first longitude is infinite) and whose second leg is finite, with a photo
  interval of 2, both results are NaN: \<open>minDistance\<close> is not at or below the second
  distance, so it is not the smallest of the two, and \<open>maxSpeed\<close> is no quotient of a
  distance.
\<close>

theorem calculateMaxSpeed_smallest_leg_counterexample:
  "2 \<le> length [\<lparr>lng = PInf, lat = Fin 0\<rparr>, \<lparr>lng = Fin 0, lat = Fin 0\<rparr>, \<lparr>lng = Fin 180, lat = Fin 0\<rparr>] \<and>
   js_gt (Fin 2) (Fin 0) \<and>
   calculateDistance turf_distance \<lparr>lng = PInf, lat = Fin 0\<rparr> \<lparr>lng = Fin 0, lat = Fin 0\<rparr> = NaN \<and>
   calculateDistance turf_distance \<lparr>lng = Fin 0, lat = Fin 0\<rparr> \<lparr>lng = Fin 180, lat = Fin 0\<rparr>
     = Fin (pi * 6371008.8) \<and>
   calculateMaxSpeed turf_distance
      (Some [\<lparr>lng = PInf, lat = Fin 0\<rparr>, \<lparr>lng = Fin 0, lat = Fin 0\<rparr>, \<lparr>lng = Fin 180, lat = Fin 0\<rparr>]) (Fin 2)
    = \<lparr>maxSpeed = NaN, minDistance = NaN\<rparr> \<and>
   \<not> js_le (minDistance (calculateMaxSpeed turf_distance
      (Some [\<lparr>lng = PInf, lat = Fin 0\<rparr>, \<lparr>lng = Fin 0, lat = Fin 0\<rparr>, \<lparr>lng = Fin 180, lat = Fin 0\<rparr>]) (Fin 2)))
     (calculateDistance turf_distance \<lparr>lng = Fin 0, lat = Fin 0\<rparr> \<lparr>lng = Fin 180, lat = Fin 0\<rparr>)"
  by (simp add: calculateMaxSpeed_valid js_gt_def legs_def calculateDistance_def
       turf_distance_infinite turf_distance_antipodes js_min_list_def numeral_3_eq_3)

text \<open>
  C4, where it fails: when the distance of some consecutive pair is NaN and the photo
  interval is above 0, the minimum and the quotient are NaN and \<^verbatim>\<open>Math.max(0, NaN)\<close> is
  NaN, so \<open>maxSpeed\<close> is NaN, not 0. The witness is the list of two waypoints of
  which one has an infinite longitude, with the interval 5.5.
\<close>

theorem calculateMaxSpeed_nonfinite:
  assumes "2 \<le> length ws" and "js_gt p (Fin 0)"
    and "k + 1 < length ws" and "calculateDistance distance (ws ! k) (ws ! (k + 1)) = NaN"
  shows "maxSpeed (calculateMaxSpeed distance (Some ws) p) = NaN"
proof -
  have "NaN \<in> set (legs distance ws)"
    using assms(3,4) by (auto simp: set_legs intro!: exI [of _ k])
  then have "js_min_list (legs distance ws) = NaN"
    by (simp add: js_min_list_def foldl_js_min_NaN)
  then show ?thesis
    using calculateMaxSpeed_valid [OF assms(1,2)] by simp
qed

theorem calculateMaxSpeed_nonfinite_witness:
  "2 \<le> length [\<lparr>lng = PInf, lat = Fin 0\<rparr>, \<lparr>lng = Fin 0, lat = Fin 0\<rparr>] \<and>
   js_gt (Fin 5.5) (Fin 0) \<and>
   calculateDistance turf_distance \<lparr>lng = PInf, lat = Fin 0\<rparr> \<lparr>lng = Fin 0, lat = Fin 0\<rparr> = NaN \<and>
   maxSpeed (calculateMaxSpeed turf_distance
      (Some [\<lparr>lng = PInf, lat = Fin 0\<rparr>, \<lparr>lng = Fin 0, lat = Fin 0\<rparr>]) (Fin 5.5)) = NaN"
proof -
  let ?ws = "[\<lparr>lng = PInf, lat = Fin 0\<rparr>, \<lparr>lng = Fin 0, lat = Fin 0\<rparr>]"
  have h1: "2 \<le> length ?ws" by simp
  have h2: "js_gt (Fin 5.5) (Fin 0)" by (simp add: js_gt_def)
  have h3: "0 + 1 < length ?ws" by simp
  have d: "calculateDistance turf_distance \<lparr>lng = PInf, lat = Fin 0\<rparr> \<lparr>lng = Fin 0, lat = Fin 0\<rparr> = NaN"
    by (simp add: calculateDistance_def turf_distance_infinite)
  then have h4: "calculateDistance turf_distance (?ws ! 0) (?ws ! (0 + 1)) = NaN" by simp
  from calculateMaxSpeed_nonfinite [OF h1 h2 h3 h4] h1 h2 d show ?thesis by blast
qed

text \<open>
  C5, as the code has it: for a waypoint list whose consecutive distances are finite
  numbers and photo intervals \<open>0 < c1 \<le> c2\<close>, the \<open>maxSpeed\<close> for \<open>c2\<close> is at
  most the \<open>maxSpeed\<close> for \<open>c1\<close>.
\<close>

theorem calculateMaxSpeed_monotone:
  assumes "js_gt c1 (Fin 0)" and "js_le c1 c2"
    and "\<forall>k. k + 1 < length ws \<longrightarrow>
           (\<exists>x. calculateDistance distance (ws ! k) (ws ! (k + 1)) = Fin x)"
  shows "js_le (maxSpeed (calculateMaxSpeed distance (Some ws) c2))
           (maxSpeed (calculateMaxSpeed distance (Some ws) c1))"
proof (cases "2 \<le> length ws")
  case True
  have c2: "js_gt c2 (Fin 0)"
    using assms(1,2) by (cases c1; cases c2) (auto simp: js_gt_def)
  have ne: "legs distance ws \<noteq> []" using True by (simp add: legs_def)
  have fin: "\<forall>d\<in>set (legs distance ws). \<exists>x. d = Fin x"
    using assms(3) by (auto simp: set_legs)
  from js_min_list_smallest [OF ne fin] fin
  obtain x where "js_min_list (legs distance ws) = Fin x" by blast
  then show ?thesis
    using calculateMaxSpeed_valid [OF True assms(1)] calculateMaxSpeed_valid [OF True c2]
      speed_mono [OF assms(1,2)]
    by simp
next
  case False
  then have "length ws < 2" by simp
  then show ?thesis by (simp add: calculateMaxSpeed_invalid)
qed

theorem calculateMaxSpeed_monotone_witness:
  "js_gt (Fin 2) (Fin 0) \<and> js_le (Fin 2) (Fin 4) \<and>
   js_le (maxSpeed (calculateMaxSpeed turf_distance
           (Some [\<lparr>lng = Fin 0, lat = Fin 0\<rparr>, \<lparr>lng = Fin 180, lat = Fin 0\<rparr>]) (Fin 4)))
         (maxSpeed (calculateMaxSpeed turf_distance
           (Some [\<lparr>lng = Fin 0, lat = Fin 0\<rparr>, \<lparr>lng = Fin 180, lat = Fin 0\<rparr>]) (Fin 2)))"
proof -
  let ?ws = "[\<lparr>lng = Fin 0, lat = Fin 0\<rparr>, \<lparr>lng = Fin 180, lat = Fin 0\<rparr>]"
  have h1: "js_gt (Fin 2) (Fin 0)" by (simp add: js_gt_def)
  have h2: "js_le (Fin 2) (Fin 4)" by simp
  have "\<exists>x. calculateDistance turf_distance \<lparr>lng = Fin 0, lat = Fin 0\<rparr>
          \<lparr>lng = Fin 180, lat = Fin 0\<rparr> = Fin x"
    unfolding calculateDistance_def Let_def fst_conv snd_conv lnglat.simps
      turf_distance_antipodes by (rule exI) (rule refl)
  then have h3: "\<forall>k. k + 1 < length ?ws \<longrightarrow>
           (\<exists>x. calculateDistance turf_distance (?ws ! k) (?ws ! (k + 1)) = Fin x)"
    by simp
  from calculateMaxSpeed_monotone [OF h1 h2 h3] h1 h2 show ?thesis by simp
qed

text \<open>
  C5 as stated, for all \<open>c1 \<le> c2\<close>, fails at \<open>c1 = 0\<close>: the guard answers 0 for the
  interval 0, and the interval 1 gives the positive distance of the pair.
\<close>

theorem calculateMaxSpeed_monotone_counterexample:
  "js_le (Fin 0) (Fin 1) \<and>
   \<not> js_le (maxSpeed (calculateMaxSpeed turf_distance
           (Some [\<lparr>lng = Fin 0, lat = Fin 0\<rparr>, \<lparr>lng = Fin 180, lat = Fin 0\<rparr>]) (Fin 1)))
         (maxSpeed (calculateMaxSpeed turf_distance
           (Some [\<lparr>lng = Fin 0, lat = Fin 0\<rparr>, \<lparr>lng = Fin 180, lat = Fin 0\<rparr>]) (Fin 0)))"
  by (simp add: calculateMaxSpeed_valid calculateMaxSpeed_invalid js_gt_def legs_pair
       calculateDistance_def turf_distance_antipodes js_min_list_def not_le)

text \<open>
  C9. A call of \<open>calculateMaxSpeed\<close> returns the same result whatever arguments follow
  the first two; the speed that \<^verbatim>\<open>handleGenerate\<close> takes from its call depends on the
  path and the photo interval of the settings only, not on the altitude, the field of
  view, the gimbal pitch or the front overlap that it passes besides.
\<close>

theorem calculateMaxSpeed_ignores_surplus:
  "call2 (calculateMaxSpeed distance) waypoints photoInterval surplus1
     = call2 (calculateMaxSpeed distance) waypoints photoInterval surplus2 \<and>
   (js_get s1 ''photoInterval'' = js_get s2 ''photoInterval'' \<longrightarrow>
      handleGenerate_maxSpeed distance path s1 fov1 = handleGenerate_maxSpeed distance path s2 fov2)"
  by (simp add: call2_def handleGenerate_maxSpeed_def)

theorem calculateMaxSpeed_ignores_surplus_witness:
  "js_get default_settings ''photoInterval''
     = js_get (default_settings(''altitude'' \<mapsto> JNum (Fin 120))) ''photoInterval'' \<and>
   handleGenerate_maxSpeed turf_distance
       [\<lparr>lng = Fin 0, lat = Fin 0\<rparr>, \<lparr>lng = Fin 180, lat = Fin 0\<rparr>]
       default_settings (JNum (Fin 82.1))
     = handleGenerate_maxSpeed turf_distance
         [\<lparr>lng = Fin 0, lat = Fin 0\<rparr>, \<lparr>lng = Fin 180, lat = Fin 0\<rparr>]
         (default_settings(''altitude'' \<mapsto> JNum (Fin 120))) (JNum (Fin 60))"
  using calculateMaxSpeed_ignores_surplus
    [of turf_distance "None :: lnglat list option" "Fin 2" "[]" "[]" default_settings
      "default_settings(''altitude'' \<mapsto> JNum (Fin 120))"
      "[\<lparr>lng = Fin 0, lat = Fin 0\<rparr>, \<lparr>lng = Fin 180, lat = Fin 0\<rparr>]"
      "JNum (Fin 82.1)" "JNum (Fin 60)"]
  by (simp add: js_get_def default_settings_def)

section \<open>Properties of the camera footprint\<close>



lemma js_div_NaN_right: "js_div a NaN = NaN"
  by (cases a) simp_all




















text \<open>
  C10. Whatever the library, the centre and the heading, \<open>calculateFootprint\<close> returns
  \<^verbatim>\<open>null\<close> for an altitude of 0 and for a horizontal field of view of 0, as it does for
  a missing altitude or field of view: the guard treats the number zero as it treats a
  missing argument, and returns before any call of the library.
\<close>

theorem calculateFootprint_zero_is_null:
  "calculateFootprint turf center (Some (Fin 0)) h fov g = Inr None \<and>
   calculateFootprint turf center a h (Some (Fin 0)) g = Inr None \<and>
   calculateFootprint turf center None h fov g = Inr None \<and>
   calculateFootprint turf center a h None g = Inr None"
  by (simp add: calculateFootprint_def split: option.splits)



section \<open>Properties of the import\<close>

lemma processFile_forEach_eq:
  "processFile_forEach settings uuids features acc =
     acc @ map (\<lambda>(n, c, f). newPoint settings (uuids n) c f)
             (enumerate (length acc) (pointFeatures features))"
proof (induction features arbitrary: acc)
  case Nil
  then show ?case by (simp add: pointFeatures_def List.map_filter_simps)
next
  case (Cons f fs)
  show ?case
    by (cases "geometry f")
       (simp_all add: Cons.IH pointFeatures_def List.map_filter_simps)
qed

text \<open>
  C8, as the code has it: the import builds one waypoint for each point feature of the
  file, in order; the waypoint takes altitude, speed, gimbal pitch and heading from the
  properties of the feature where the property is there, altitude, speed and gimbal
  pitch from the current settings where it is not, and the heading 0 where the file
  has no heading.
\<close>

theorem processFile_fields:
  "processFile_forEach settings uuids features [] =
     map (\<lambda>(n, c, f). newPoint settings (uuids n) c f) (enumerate 0 (pointFeatures features)) \<and>
   (\<forall>v. js_get (properties f) ''altitude'' = v \<and> v \<noteq> JUndefined
      \<longrightarrow> altitude (newPoint settings u c f) = v) \<and>
   (js_get (properties f) ''altitude'' = JUndefined
      \<longrightarrow> altitude (newPoint settings u c f) = js_get settings ''altitude'') \<and>
   (\<forall>v. js_get (properties f) ''speed'' = v \<and> v \<noteq> JUndefined
      \<longrightarrow> speed (newPoint settings u c f) = v) \<and>
   (js_get (properties f) ''speed'' = JUndefined
      \<longrightarrow> speed (newPoint settings u c f) = js_get settings ''speed'') \<and>
   (\<forall>v. js_get (properties f) ''gimbalPitch'' = v \<and> v \<noteq> JUndefined
      \<longrightarrow> gimbalPitch (newPoint settings u c f) = v) \<and>
   (js_get (properties f) ''gimbalPitch'' = JUndefined
      \<longrightarrow> gimbalPitch (newPoint settings u c f) = js_get settings ''gimbalPitch'') \<and>
   (\<forall>v. js_get (properties f) ''heading'' = v \<and> v \<noteq> JUndefined
      \<longrightarrow> heading (newPoint settings u c f) = v) \<and>
   (js_get (properties f) ''heading'' = JUndefined
      \<longrightarrow> heading (newPoint settings u c f) = JNum (Fin 0))"
  using processFile_forEach_eq [of settings uuids features "[]"]
  by (simp add: newPoint_def)

theorem processFile_fields_witness:
  "processFile_forEach default_settings (\<lambda>n. ''wp'')
      [\<lparr>geometry = LineString [], properties = Map.empty\<rparr>,
       \<lparr>geometry = Point (Fin 10, Fin 20), properties = [''altitude'' \<mapsto> JNum (Fin 30)]\<rparr>] []
     = [\<lparr>lng = Fin 10, lat = Fin 20, id_wp = ''wp'', altitude = JNum (Fin 30),
         speed = JNum (Fin 10), gimbalPitch = JNum (Fin (- 90)), heading = JNum (Fin 0)\<rparr>]"
  using processFile_fields [of default_settings "\<lambda>n. ''wp''"
      "[\<lparr>geometry = LineString [], properties = Map.empty\<rparr>,
        \<lparr>geometry = Point (Fin 10, Fin 20), properties = [''altitude'' \<mapsto> JNum (Fin 30)]\<rparr>]"
      "\<lparr>geometry = Point (Fin 10, Fin 20), properties = [''altitude'' \<mapsto> JNum (Fin 30)]\<rparr>"
      "''wp''" "(Fin 10, Fin 20)"]
  by (simp add: pointFeatures_def List.map_filter_simps enumerate_eq_zip js_get_def default_settings_def
        newPoint_def)

text \<open>
  C8 as stated fails for the heading: a point without a heading gets the heading 0,
  which is not the \<^verbatim>\<open>heading\<close> of the settings, neither of the default settings, which
  have none, nor of settings that carry one.
\<close>

theorem processFile_heading_counterexample:
  "js_get (properties \<lparr>geometry = Point (Fin 10, Fin 20), properties = [''altitude'' \<mapsto> JNum (Fin 30)]\<rparr>)
      ''heading'' = JUndefined \<and>
   heading (newPoint default_settings ''wp-1'' (Fin 10, Fin 20)
      \<lparr>geometry = Point (Fin 10, Fin 20), properties = [''altitude'' \<mapsto> JNum (Fin 30)]\<rparr>)
     \<noteq> js_get default_settings ''heading'' \<and>
   heading (newPoint (default_settings(''heading'' \<mapsto> JNum (Fin 90))) ''wp-1'' (Fin 10, Fin 20)
      \<lparr>geometry = Point (Fin 10, Fin 20), properties = [''altitude'' \<mapsto> JNum (Fin 30)]\<rparr>)
     \<noteq> js_get (default_settings(''heading'' \<mapsto> JNum (Fin 90))) ''heading''"
  by (simp add: newPoint_def js_get_def default_settings_def)

end
